theory Spec2Isabelle
  imports Main "HOL-Library.AList"
begin

section \<open>The ZettlrIPC postmaster (source/main/zettlr-ipc.js)\<close>

text \<open>
  The class \<^verbatim>\<open>ZettlrIPC\<close> listens on the channels \<^verbatim>\<open>config\<close>, \<^verbatim>\<open>typo\<close>,
  \<^verbatim>\<open>getCitation\<close>, \<^verbatim>\<open>updateItems\<close> (synchronous) and \<^verbatim>\<open>message\<close> (duplex), and
  offers \<^verbatim>\<open>send\<close>, \<^verbatim>\<open>dispatch\<close>, \<^verbatim>\<open>handleEvent\<close> and \<^verbatim>\<open>runCall\<close>. The embedding
  below follows the JavaScript statement by statement. Everything the code does besides
  computing a value is explicit: a thrown exception is the \<open>Inl\<close> branch of a sum, the
  backend's mutable state is threaded through, and what the code writes to the console and to
  the channel transport is appended to a trace.
\<close>

subsection \<open>JavaScript values\<close>

text \<open>
  Payloads that cross the process boundary are plain data. Objects are association lists from
  property names to values (insertion order kept, as JavaScript keeps it). Numbers are the
  integers (hashes, coordinates); no claim depends on fractions or \<^verbatim>\<open>NaN\<close>.
\<close>

datatype jsval =
    JUndefined
  | JNull
  | JBool bool
  | JNum int
  | JStr string
  | JArr "jsval list"
  | JObj "(string \<times> jsval) list"

datatype error =
    TypeError
  | UnknownCommand jsval
  | Thrown jsval

text \<open>\<^verbatim>\<open>if (v)\<close>, \<^verbatim>\<open>v ? a : b\<close> and \<^verbatim>\<open>!v\<close>: the falsy values are \<^verbatim>\<open>undefined\<close>, \<^verbatim>\<open>null\<close>,
  \<^verbatim>\<open>false\<close>, \<^verbatim>\<open>0\<close> and the empty string.\<close>

fun truthy :: "jsval \<Rightarrow> bool" where
  "truthy JUndefined = False"
| "truthy JNull = False"
| "truthy (JBool b) = b"
| "truthy (JNum n) = (n \<noteq> 0)"
| "truthy (JStr s) = (s \<noteq> [])"
| "truthy (JArr xs) = True"
| "truthy (JObj kvs) = True"

text \<open>
  \<^verbatim>\<open>v.hasOwnProperty(k)\<close>. On \<^verbatim>\<open>undefined\<close> and \<^verbatim>\<open>null\<close> the member access throws. An
  object that carries an own property called \<^verbatim>\<open>hasOwnProperty\<close> shadows the inherited method
  with a datum, and calling a datum throws as well. Numbers, booleans, strings and arrays
  inherit the method and own none of the names the program asks for (\<^verbatim>\<open>command\<close>,
  \<^verbatim>\<open>cypher\<close>, \<^verbatim>\<open>content\<close>).
\<close>

fun hasOwnProperty :: "jsval \<Rightarrow> string \<Rightarrow> error + bool" where
  "hasOwnProperty JUndefined k = Inl TypeError"
| "hasOwnProperty JNull k = Inl TypeError"
| "hasOwnProperty (JObj kvs) k =
     (if map_of kvs ''hasOwnProperty'' \<noteq> None then Inl TypeError
      else Inr (map_of kvs k \<noteq> None))"
| "hasOwnProperty v k = Inr False"

text \<open>
  A property read \<^verbatim>\<open>v.k\<close>, for the names the program reads (\<^verbatim>\<open>command\<close>, \<^verbatim>\<open>content\<close>,
  \<^verbatim>\<open>cypher\<close>, \<^verbatim>\<open>hash\<close>, \<^verbatim>\<open>terms\<close>, \<^verbatim>\<open>type\<close>, \<^verbatim>\<open>term\<close>, \<^verbatim>\<open>x\<close>, \<^verbatim>\<open>y\<close>, \<^verbatim>\<open>filters\<close>,
  \<^verbatim>\<open>multiSel\<close>): it throws on \<^verbatim>\<open>undefined\<close> and \<^verbatim>\<open>null\<close>, and yields \<^verbatim>\<open>undefined\<close> where
  the property is absent.
\<close>

fun get_prop :: "jsval \<Rightarrow> string \<Rightarrow> error + jsval" where
  "get_prop JUndefined k = Inl TypeError"
| "get_prop JNull k = Inl TypeError"
| "get_prop (JObj kvs) k = Inr (case map_of kvs k of None \<Rightarrow> JUndefined | Some v \<Rightarrow> v)"
| "get_prop v k = Inr JUndefined"

text \<open>
  An assignment \<^verbatim>\<open>v.k = x\<close>. The class body is strict-mode code, so the assignment throws on
  every primitive; on an object it replaces the property in place or appends it. The program
  assigns \<^verbatim>\<open>returnValue\<close> to an envelope that owns a \<^verbatim>\<open>command\<close>, which is an object.
\<close>

fun set_prop :: "jsval \<Rightarrow> string \<Rightarrow> jsval \<Rightarrow> error + jsval" where
  "set_prop (JObj kvs) k x = Inr (JObj (AList.update k x kvs))"
| "set_prop v k x = Inl TypeError"

subsection \<open>The world: backend state and the trace of channel and console output\<close>

text \<open>
  \<open>SenderSend s c p\<close> is \<^verbatim>\<open>event.sender.send(c, p)\<close> for the sender \<open>s\<close> of the inbound
  event, \<open>SenderStartDrag s p\<close> is \<^verbatim>\<open>event.sender.startDrag(p)\<close>, and
  \<open>WebContentsSend win c p\<close> is \<^verbatim>\<open>win.webContents.send(c, p)\<close> on the window that
  \<^verbatim>\<open>this._app.window.getWindow()\<close> returned.
\<close>

datatype effect =
    ConsoleError "jsval list"
  | ConsoleLog "jsval list"
  | SenderSend nat string jsval
  | SenderStartDrag nat jsval
  | WebContentsSend jsval string jsval

record 'a world =
  backend :: 'a
  trace :: "effect list"

type_synonym ('a, 'r) js = "'a world \<Rightarrow> (error + 'r) \<times> 'a world"

definition js_return :: "'r \<Rightarrow> ('a, 'r) js" where
  "js_return v = (\<lambda>w. (Inr v, w))"

definition js_throw :: "error \<Rightarrow> ('a, 'r) js" where
  "js_throw e = (\<lambda>w. (Inl e, w))"

definition js_bind :: "('a, 'r) js \<Rightarrow> ('r \<Rightarrow> ('a, 's) js) \<Rightarrow> ('a, 's) js" where
  "js_bind m f = (\<lambda>w. case m w of (Inl e, w') \<Rightarrow> (Inl e, w') | (Inr v, w') \<Rightarrow> f v w')"

definition js_then :: "('a, 'r) js \<Rightarrow> ('a, 's) js \<Rightarrow> ('a, 's) js" where
  "js_then m n = js_bind m (\<lambda>_. n)"

definition js_void :: "('a, 'r) js \<Rightarrow> ('a, unit) js" where
  "js_void m = js_bind m (\<lambda>_. js_return ())"

definition js_lift :: "error + 'r \<Rightarrow> ('a, 'r) js" where
  "js_lift x = (\<lambda>w. (x, w))"

definition js_read :: "('a \<Rightarrow> 'r) \<Rightarrow> ('a, 'r) js" where
  "js_read f = (\<lambda>w. (Inr (f (backend w)), w))"

definition emit :: "effect \<Rightarrow> ('a, unit) js" where
  "emit e = (\<lambda>w. (Inr (), w\<lparr>trace := trace w @ [e]\<rparr>))"

subsection \<open>The collaborators\<close>

text \<open>
  \<^verbatim>\<open>ZettlrFile\<close> and \<^verbatim>\<open>ZettlrDir\<close> objects, as far as this class reads them.
\<close>

record zettlr_file =
  hash :: int
  path :: string

record zettlr_dir =
  dir_hash :: int

type_synonym 'a handler = "jsval \<Rightarrow> ('a, jsval) js"

text \<open>
  The application object \<^verbatim>\<open>this._app\<close>, the globals (\<^verbatim>\<open>global.config\<close>,
  \<^verbatim>\<open>global.targets\<close>, \<^verbatim>\<open>global.tags\<close>, \<^verbatim>\<open>global.citeproc\<close>), Electron and the helpers
  \<^verbatim>\<open>trans\<close>, \<^verbatim>\<open>parseInt\<close>, \<^verbatim>\<open>path.join\<close> live outside this class. They are parameters of the
  model, over an arbitrary backend state \<open>'a\<close>:
  \<^item> \<open>query n args\<close> is a read accessor named \<open>n\<close> (a property read, a getter, a pure helper):
    it returns a value and leaves the state alone;
  \<^item> \<open>action n args\<close> is an operation named \<open>n\<close>: it may change the world, and may throw;
  \<^item> the file index (\<open>findFile\<close>, \<open>findExact\<close>, \<open>getCurrentFile\<close>, \<open>getCurrentDir\<close>) returns a
    file or directory, or \<open>None\<close> for JavaScript's \<^verbatim>\<open>null\<close>; \<open>withContent\<close>, \<open>search\<close> and
    \<open>getMetadata\<close> are the methods of a file;
  \<^item> \<open>getConfig\<close> is the configuration object returned by
    \<^verbatim>\<open>this._app.getConfig().getConfig()\<close>;
  \<^item> \<open>registry\<close> is the Command Registry, from command names to handlers.
\<close>

record 'a env =
  registry :: "jsval \<Rightarrow> 'a handler option"
  query :: "string \<Rightarrow> jsval list \<Rightarrow> 'a \<Rightarrow> jsval"
  action :: "string \<Rightarrow> jsval list \<Rightarrow> ('a, jsval) js"
  findFile :: "jsval \<Rightarrow> 'a \<Rightarrow> zettlr_file option"
  findExact :: "jsval \<Rightarrow> 'a \<Rightarrow> zettlr_file option"
  getCurrentFile :: "'a \<Rightarrow> zettlr_file option"
  getCurrentDir :: "'a \<Rightarrow> zettlr_dir option"
  withContent :: "zettlr_file \<Rightarrow> 'a \<Rightarrow> (string \<times> jsval) list"
  search :: "zettlr_file \<Rightarrow> jsval \<Rightarrow> 'a \<Rightarrow> jsval"
  getMetadata :: "zettlr_file \<Rightarrow> 'a \<Rightarrow> jsval"
  getConfig :: "'a \<Rightarrow> (string \<times> jsval) list"

text \<open>
  Modelled from the spec: \<^verbatim>\<open>this._app.runCommand(cmd, cnt)\<close> is a method of the application
  object, which is not part of this class. The specification describes it as the Command
  Registry, "a mapping from a command name to an executable handler", which executes the
  matched handler with the payload and raises "unknown command" when no handler matches.
\<close>

definition runCommand :: "'a env \<Rightarrow> jsval \<Rightarrow> jsval \<Rightarrow> ('a, jsval) js" where
  "runCommand env cmd cnt =
     (case registry env cmd of
        None \<Rightarrow> js_throw (UnknownCommand cmd)
      | Some h \<Rightarrow> h cnt)"

text \<open>A method call on a file that the index may not have found:
  \<^verbatim>\<open>this._app.findFile(c).m(...)\<close> throws a \<^verbatim>\<open>TypeError\<close> when \<^verbatim>\<open>findFile\<close> returned
  \<^verbatim>\<open>null\<close>.\<close>

definition deref :: "'r option \<Rightarrow> ('a, 'r) js" where
  "deref x = (case x of None \<Rightarrow> js_throw TypeError | Some f \<Rightarrow> js_return f)"

subsection \<open>send\<close>

text \<open>
  \<^verbatim>\<open>
  send (command, content = {}) {
    if (!this._app.window.getWindow()) {
      return this // Fail gracefully
    }
    let sender = this._app.window.getWindow().webContents
    sender.send('message', { 'command': command, 'content': content })
    return this
  }
  \<close>
  The default parameter replaces an \<^verbatim>\<open>undefined\<close> content (and only that) by \<^verbatim>\<open>{}\<close>. The
  method returns \<^verbatim>\<open>this\<close>, the one \<^verbatim>\<open>ZettlrIPC\<close> object.
\<close>

datatype zettlr_ipc = This

definition default_content :: "jsval \<Rightarrow> jsval" where
  "default_content content = (if content = JUndefined then JObj [] else content)"

definition getWindow :: "'a env \<Rightarrow> 'a \<Rightarrow> jsval" where
  "getWindow env = query env ''_app.window.getWindow'' []"

definition send :: "'a env \<Rightarrow> jsval \<Rightarrow> jsval \<Rightarrow> ('a, zettlr_ipc) js" where
  "send env command content =
     (\<lambda>w. if \<not> truthy (getWindow env (backend w)) then (Inr This, w)
          else js_then
                 (emit (WebContentsSend (getWindow env (backend w)) ''message''
                          (JObj [(''command'', command),
                                 (''content'', default_content content)])))
                 (js_return This) w)"

text \<open>
  The globals that the constructor installs for the rest of the backend:
  \<^verbatim>\<open>
  global.ipc = {
    notify: (msg) => { this.send('notify', msg) },
    notifyError: (msg) => { this.send('notify-error', msg) },
    updateFile: (file) => { this.send('file-replace', { 'hash': file.hash, 'file': file.getMetadata() }) }
  }
  \<close>
\<close>

definition notify :: "'a env \<Rightarrow> jsval \<Rightarrow> ('a, unit) js" where
  "notify env msg = js_void (send env (JStr ''notify'') msg)"

definition notifyError :: "'a env \<Rightarrow> jsval \<Rightarrow> ('a, unit) js" where
  "notifyError env msg = js_void (send env (JStr ''notify-error'') msg)"

definition updateFile :: "'a env \<Rightarrow> zettlr_file \<Rightarrow> ('a, unit) js" where
  "updateFile env file =
     js_bind (js_read (getMetadata env file)) (\<lambda>meta.
       js_void (send env (JStr ''file-replace'')
                  (JObj [(''hash'', JNum (hash file)), (''file'', meta)])))"

subsection \<open>The window controls shared by handleEvent and runCall\<close>

text \<open>
  The cases \<^verbatim>\<open>win-maximise\<close>, \<^verbatim>\<open>win-minimise\<close> and \<^verbatim>\<open>win-close\<close> have the same text in
  both switches:
  \<^verbatim>\<open>
  if (BrowserWindow.getFocusedWindow()) {
    if (BrowserWindow.getFocusedWindow().isMaximized()) {
      BrowserWindow.getFocusedWindow().unmaximize()
    } else {
      BrowserWindow.getFocusedWindow().maximize()
    }
  }
  \<close>
\<close>

definition getFocusedWindow :: "'a env \<Rightarrow> 'a \<Rightarrow> jsval" where
  "getFocusedWindow env = query env ''BrowserWindow.getFocusedWindow'' []"

definition win_maximise :: "'a env \<Rightarrow> ('a, unit) js" where
  "win_maximise env =
     js_bind (js_read (getFocusedWindow env)) (\<lambda>fw.
       if truthy fw then
         js_bind (js_read (query env ''isMaximized'' [fw])) (\<lambda>m.
           if truthy m then js_void (action env ''unmaximize'' [fw])
           else js_void (action env ''maximize'' [fw]))
       else js_return ())"

definition win_minimise :: "'a env \<Rightarrow> ('a, unit) js" where
  "win_minimise env =
     js_bind (js_read (getFocusedWindow env)) (\<lambda>fw.
       if truthy fw then js_void (action env ''minimize'' [fw]) else js_return ())"

definition win_close :: "'a env \<Rightarrow> ('a, unit) js" where
  "win_close env =
     js_bind (js_read (getFocusedWindow env)) (\<lambda>fw.
       if truthy fw then js_void (action env ''close'' [fw]) else js_return ())"

text \<open>\<^verbatim>\<open>console.log(trans('system.unknown_command', cmd))\<close>, the default case of both
  switches.\<close>

definition log_unknown_command :: "'a env \<Rightarrow> jsval \<Rightarrow> ('a, unit) js" where
  "log_unknown_command env cmd =
     js_bind (js_read (query env ''trans'' [JStr ''system.unknown_command'', cmd])) (\<lambda>m.
       emit (ConsoleLog [m]))"

subsection \<open>runCall\<close>

text \<open>
  The switch of \<^verbatim>\<open>runCall (cmd, arg)\<close> compares \<^verbatim>\<open>cmd\<close> with \<^verbatim>\<open>===\<close> against string
  literals. A case that ends in \<^verbatim>\<open>break\<close> leaves the function at its end, which returns
  \<^verbatim>\<open>undefined\<close>; the other cases return their value; the default case logs and returns
  \<^verbatim>\<open>null\<close>. The method never consults the Command Registry.
\<close>

definition runCall :: "'a env \<Rightarrow> jsval \<Rightarrow> jsval \<Rightarrow> ('a, jsval) js" where
  "runCall env cmd arg =
     (if cmd = JStr ''win-maximise'' then js_then (win_maximise env) (js_return JUndefined)
      else if cmd = JStr ''win-minimise'' then js_then (win_minimise env) (js_return JUndefined)
      else if cmd = JStr ''win-close'' then js_then (win_close env) (js_return JUndefined)
      else if cmd = JStr ''request-files'' then
        js_bind (js_lift (get_prop arg ''filters'')) (\<lambda>filters.
        js_bind (js_lift (get_prop arg ''multiSel'')) (\<lambda>multiSel.
          action env ''_app.getWindow.askFile'' [filters, multiSel]))
      else if cmd = JStr ''make-standalone'' then
        js_then (action env ''_app.openQL'' [arg]) (js_return (JBool True))
      else if cmd = JStr ''get-tags-database'' then js_read (query env ''global.tags.get'' [])
      else if cmd = JStr ''get-custom-css'' then
        js_read (query env ''_app.getConfig.getCustomCSS'' [])
      else if cmd = JStr ''get-custom-css-path'' then
        js_read (query env ''_app.getConfig.getCustomCSSPath'' [])
      else if cmd = JStr ''set-custom-css'' then
        action env ''_app.getConfig.setCustomCSS'' [arg]
      else js_then (log_unknown_command env cmd) (js_return JNull))"

text \<open>The case labels of \<^verbatim>\<open>runCall\<close>'s switch.\<close>

definition runCall_commands :: "string list" where
  "runCall_commands =
     [''win-maximise'', ''win-minimise'', ''win-close'', ''request-files'', ''make-standalone'',
      ''get-tags-database'', ''get-custom-css'', ''get-custom-css-path'', ''set-custom-css'']"

subsection \<open>handleEvent\<close>

text \<open>
  \<^verbatim>\<open>
  case 'get-paths':
    this.send('paths-update', this._app.getPathDummies())
    this.send('file-set-current', (this._app.getCurrentFile()) ? this._app.getCurrentFile().hash : null)
    this.send('dir-set-current', (this._app.getCurrentDir()) ? this._app.getCurrentDir().hash : null)
    if (this._app.getCurrentFile()) this.send('file-open', this._app.getCurrentFile().withContent())
    break
  \<close>
\<close>

definition get_paths :: "'a env \<Rightarrow> ('a, unit) js" where
  "get_paths env =
     js_bind (js_read (query env ''_app.getPathDummies'' [])) (\<lambda>dummies.
     js_then (send env (JStr ''paths-update'') dummies)
    (js_bind (js_read (getCurrentFile env)) (\<lambda>cf.
     js_then (send env (JStr ''file-set-current'')
                (case cf of Some f \<Rightarrow> JNum (hash f) | None \<Rightarrow> JNull))
    (js_bind (js_read (getCurrentDir env)) (\<lambda>cd.
     js_then (send env (JStr ''dir-set-current'')
                (case cd of Some d \<Rightarrow> JNum (dir_hash d) | None \<Rightarrow> JNull))
    (js_bind (js_read (getCurrentFile env)) (\<lambda>cf'.
       case cf' of
         Some f \<Rightarrow>
           js_bind (js_read (withContent env f)) (\<lambda>c.
             js_void (send env (JStr ''file-open'') (JObj c)))
       | None \<Rightarrow> js_return ())))))))"

text \<open>
  \<^verbatim>\<open>
  case 'file-search':
    let ret = this._app.findFile({ 'hash': cnt.hash }).search(cnt.terms)
    this.send('file-search-result', { 'hash': cnt.hash, 'result': ret })
    break
  \<close>
\<close>

definition file_search :: "'a env \<Rightarrow> jsval \<Rightarrow> ('a, unit) js" where
  "file_search env cnt =
     js_bind (js_lift (get_prop cnt ''hash'')) (\<lambda>h.
     js_bind (js_read (findFile env (JObj [(''hash'', h)]))) (\<lambda>found.
     js_bind (deref found) (\<lambda>f.
     js_bind (js_lift (get_prop cnt ''terms'')) (\<lambda>terms.
     js_bind (js_read (search env f terms)) (\<lambda>ret.
     js_bind (js_lift (get_prop cnt ''hash'')) (\<lambda>h'.
       js_void (send env (JStr ''file-search-result'')
                  (JObj [(''hash'', h'), (''result'', ret)]))))))))"

text \<open>
  \<^verbatim>\<open>
  case 'force-open':
    let open = this._app.findExact(cnt) // Find an exact match
    if (open != null) {
      this._app.sendFile(open.hash)
    }
    break
  \<close>
\<close>

definition force_open :: "'a env \<Rightarrow> jsval \<Rightarrow> ('a, unit) js" where
  "force_open env cnt =
     js_bind (js_read (findExact env cnt)) (\<lambda>opn.
       case opn of
         Some f \<Rightarrow> js_void (action env ''_app.sendFile'' [JNum (hash f)])
       | None \<Rightarrow> js_return ())"

text \<open>
  \<^verbatim>\<open>
  global.config.set(key, !global.config.get(key))
  this.send('config-update')
  \<close>
  for \<^verbatim>\<open>toggle-theme\<close> (key \<^verbatim>\<open>darkTheme\<close>) and \<^verbatim>\<open>toggle-snippets\<close> (key \<^verbatim>\<open>snippets\<close>).
\<close>

definition toggle :: "'a env \<Rightarrow> string \<Rightarrow> ('a, unit) js" where
  "toggle env key =
     js_bind (js_read (query env ''global.config.get'' [JStr key])) (\<lambda>v.
     js_then (action env ''global.config.set'' [JStr key, JBool (\<not> truthy v)])
       (js_void (send env (JStr ''config-update'') JUndefined)))"

text \<open>
  \<^verbatim>\<open>
  case 'get-preferences':
    let toSend = Object.assign({}, this._app.getConfig().getConfig())
    toSend.supportedLangs = this._app.getConfig().getSupportedLangs()
    toSend.availableDicts = this._app.getConfig().getDictionaries()
    this.send('preferences', toSend)
    break
  \<close>
\<close>

definition get_preferences :: "'a env \<Rightarrow> ('a, unit) js" where
  "get_preferences env =
     js_bind (js_read (getConfig env)) (\<lambda>toSend.
     js_bind (js_read (query env ''_app.getConfig.getSupportedLangs'' [])) (\<lambda>langs.
     js_bind (js_read (query env ''_app.getConfig.getDictionaries'' [])) (\<lambda>dicts.
       js_void (send env (JStr ''preferences'')
                  (JObj (AList.update ''availableDicts'' dicts
                          (AList.update ''supportedLangs'' langs toSend)))))))"

text \<open>
  \<^verbatim>\<open>
  case 'update-config':
    this._app.getConfig().bulkSet(cnt)
    this.send('config-update')
    if (this._app.dict) this._app.dict.reload()
    break
  \<close>
\<close>

definition update_config :: "'a env \<Rightarrow> jsval \<Rightarrow> ('a, unit) js" where
  "update_config env cnt =
     js_then (action env ''_app.getConfig.bulkSet'' [cnt])
    (js_then (send env (JStr ''config-update'') JUndefined)
    (js_bind (js_read (query env ''_app.dict'' [])) (\<lambda>d.
       if truthy d then js_void (action env ''_app.dict.reload'' []) else js_return ())))"

text \<open>
  A method call on \<^verbatim>\<open>global.citeproc\<close>: the global is read first, and the member access
  throws when the citation engine is not there. Only the case \<^verbatim>\<open>citeproc-get-ids\<close> tests
  the global before it uses it.
\<close>

definition citeproc_call :: "'a env \<Rightarrow> string \<Rightarrow> jsval list \<Rightarrow> ('a, jsval) js" where
  "citeproc_call env m args =
     js_bind (js_read (query env ''global.citeproc'' [])) (\<lambda>c.
       if \<not> truthy c then js_throw TypeError
       else action env (''global.citeproc.'' @ m) args)"

definition citeproc_get_ids :: "'a env \<Rightarrow> ('a, unit) js" where
  "citeproc_get_ids env =
     js_bind (js_read (query env ''global.citeproc'' [])) (\<lambda>c.
     js_bind (if truthy c then citeproc_call env ''getIDs'' [] else js_return (JArr []))
       (\<lambda>ids. js_void (send env (JStr ''citeproc-ids'') ids)))"

text \<open>
  The switch of \<^verbatim>\<open>handleEvent\<close>, in the order of the source. Every case ends in
  \<^verbatim>\<open>break\<close>, so the method returns \<^verbatim>\<open>undefined\<close> after it.
\<close>

definition handleEvent_switch :: "'a env \<Rightarrow> jsval \<Rightarrow> jsval \<Rightarrow> ('a, jsval) js" where
  "handleEvent_switch env cmd cnt =
     js_then
      (if cmd = JStr ''app-quit'' then js_void (action env ''electron.app.quit'' [])
       else if cmd = JStr ''win-maximise'' then win_maximise env
       else if cmd = JStr ''win-minimise'' then win_minimise env
       else if cmd = JStr ''win-close'' then win_close env
       else if cmd = JStr ''win-menu'' then
         js_bind (js_lift (get_prop cnt ''x'')) (\<lambda>x.
         js_bind (js_lift (get_prop cnt ''y'')) (\<lambda>y.
           js_void (action env ''_app.getWindow.popupMenu'' [x, y])))
       else if cmd = JStr ''get-paths'' then get_paths env
       else if cmd = JStr ''file-get-quicklook'' then
         js_bind (js_read (findFile env (JObj [(''hash'', cnt)]))) (\<lambda>found.
         js_bind (deref found) (\<lambda>f.
         js_bind (js_read (withContent env f)) (\<lambda>c.
           js_void (send env (JStr ''file-quicklook'') (JObj c)))))
       else if cmd = JStr ''file-get'' then js_void (action env ''_app.sendFile'' [cnt])
       else if cmd = JStr ''dir-select'' then js_void (action env ''_app.selectDir'' [cnt])
       else if cmd = JStr ''file-modified'' then js_void (action env ''_app.setModified'' [])
       else if cmd = JStr ''set-target'' then js_void (action env ''global.targets.set'' [cnt])
       else if cmd = JStr ''dir-open'' then js_void (action env ''_app.open'' [])
       else if cmd = JStr ''close-root'' then js_void (action env ''_app.close'' [cnt])
       else if cmd = JStr ''file-search'' then file_search env cnt
       else if cmd = JStr ''force-open'' then force_open env cnt
       else if cmd = JStr ''toggle-theme'' then toggle env ''darkTheme''
       else if cmd = JStr ''toggle-snippets'' then toggle env ''snippets''
       else if cmd = JStr ''get-preferences'' then get_preferences env
       else if cmd = JStr ''get-pdf-preferences'' then
         js_bind (js_read (getConfig env)) (\<lambda>c.
           js_void (send env (JStr ''pdf-preferences'') (JObj c)))
       else if cmd = JStr ''get-tags-preferences'' then
         js_bind (js_read (query env ''_app.getTags.get'' [])) (\<lambda>t.
           js_void (send env (JStr ''tags-preferences'') t))
       else if cmd = JStr ''update-config'' then update_config env cnt
       else if cmd = JStr ''update-tags'' then
         js_then (action env ''_app.getTags.update'' [cnt])
           (js_void (send env (JStr ''set-tags'') cnt))
       else if cmd = JStr ''get-tags'' then
         js_bind (js_read (query env ''_app.getTags.get'' [])) (\<lambda>t.
           js_void (send env (JStr ''set-tags'') t))
       else if cmd = JStr ''get-tags-database'' then
         js_bind (js_read (query env ''global.tags.get'' [])) (\<lambda>t.
           js_void (send env (JStr ''tags-database'') t))
       else if cmd = JStr ''handle-drop'' then js_void (action env ''_app.handleAddRoots'' [cnt])
       else if cmd = JStr ''request-stats-data'' then
         js_bind (js_read (query env ''_app.getStats.getStats'' [])) (\<lambda>s.
           js_void (send env (JStr ''stats-data'') s))
       else if cmd = JStr ''citeproc-get-ids'' then citeproc_get_ids env
       else if cmd = JStr ''citeproc-make-bibliography'' then
         js_bind (citeproc_call env ''makeBibliography'' []) (\<lambda>b.
           js_void (send env (JStr ''citeproc-bibliography'') b))
       else log_unknown_command env cmd)
      (js_return JUndefined)"

text \<open>The case labels of \<^verbatim>\<open>handleEvent\<close>'s switch: the built-in table.\<close>

definition handleEvent_commands :: "string list" where
  "handleEvent_commands =
     [''app-quit'', ''win-maximise'', ''win-minimise'', ''win-close'', ''win-menu'',
      ''get-paths'', ''file-get-quicklook'', ''file-get'', ''dir-select'', ''file-modified'',
      ''set-target'', ''dir-open'', ''close-root'', ''file-search'', ''force-open'',
      ''toggle-theme'', ''toggle-snippets'', ''get-preferences'', ''get-pdf-preferences'',
      ''get-tags-preferences'', ''update-config'', ''update-tags'', ''get-tags'',
      ''get-tags-database'', ''handle-drop'', ''request-stats-data'', ''citeproc-get-ids'',
      ''citeproc-make-bibliography'']"

text \<open>
  \<^verbatim>\<open>
  handleEvent (cmd, cnt) {
    try {
      let res = this._app.runCommand(cmd, cnt)
      return res // In case the command has run there's no need to handle it.
    } catch (e) {
      // Simple fall through
    }
    switch (cmd) { ... }
  }
  \<close>
  The \<^verbatim>\<open>catch\<close> clause takes every exception, whatever it is, and drops it; what the
  registry's handler did to the world before it threw stays done.
\<close>

definition handleEvent :: "'a env \<Rightarrow> jsval \<Rightarrow> jsval \<Rightarrow> ('a, jsval) js" where
  "handleEvent env cmd cnt =
     (\<lambda>w. case runCommand env cmd cnt w of
            (Inr res, w') \<Rightarrow> (Inr res, w')
          | (Inl e, w') \<Rightarrow> handleEvent_switch env cmd cnt w')"

subsection \<open>dispatch\<close>

text \<open>
  \<^verbatim>\<open>
  dispatch (arg) {
    if (!arg.hasOwnProperty('content')) arg.content = {}
    this.handleEvent(arg.command, arg.content)
  }
  \<close>
  The result of \<^verbatim>\<open>handleEvent\<close> is dropped.
\<close>

text \<open>
  The assignment \<^verbatim>\<open>arg.content = {}\<close> of \<^verbatim>\<open>dispatch\<close>, and the content the method then
  reads back: the assignment succeeds on an object and on an array, and throws on the other
  values (strict mode).
\<close>

fun assign_content :: "jsval \<Rightarrow> error + jsval" where
  "assign_content (JObj kvs) = Inr (JObj [])"
| "assign_content (JArr xs) = Inr (JObj [])"
| "assign_content v = Inl TypeError"

definition dispatch :: "'a env \<Rightarrow> jsval \<Rightarrow> ('a, unit) js" where
  "dispatch env arg =
     js_bind (js_lift (hasOwnProperty arg ''content'')) (\<lambda>has.
     js_bind (js_lift (if has then get_prop arg ''content'' else assign_content arg)) (\<lambda>content.
     js_bind (js_lift (get_prop arg ''command'')) (\<lambda>command.
       js_void (handleEvent env command content))))"

subsection \<open>The listeners installed by the constructor\<close>

text \<open>
  A synchronous event carries the reply in \<^verbatim>\<open>event.returnValue\<close>, which is absent until a
  listener sets it. An event on the \<^verbatim>\<open>message\<close> channel carries its \<^verbatim>\<open>sender\<close>.
\<close>

record sync_event =
  returnValue :: "jsval option"

record message_event =
  sender :: nat

text \<open>\<^verbatim>\<open>ipc.on('config', (event, key) => { event.returnValue = global.config.get(key) })\<close>\<close>

definition config_listener :: "'a env \<Rightarrow> sync_event \<Rightarrow> jsval \<Rightarrow> ('a, sync_event) js" where
  "config_listener env event key =
     js_bind (js_read (query env ''global.config.get'' [key])) (\<lambda>v.
       js_return (event\<lparr>returnValue := Some v\<rparr>))"

text \<open>
  \<^verbatim>\<open>
  ipc.on('typo', (event, message) => {
    if (message.type === 'check') {
      event.returnValue = (this._app.dict) ? this._app.dict.check(message.term) : 'not-ready'
    } else if (message.type === 'suggest') {
      event.returnValue = (this._app.dict) ? this._app.dict.suggest(message.term) : []
    }
  })
  \<close>
\<close>

definition typo_listener :: "'a env \<Rightarrow> sync_event \<Rightarrow> jsval \<Rightarrow> ('a, sync_event) js" where
  "typo_listener env event message =
     js_bind (js_lift (get_prop message ''type'')) (\<lambda>t.
       if t = JStr ''check'' then
         js_bind (js_read (query env ''_app.dict'' [])) (\<lambda>d.
           if truthy d then
             js_bind (js_lift (get_prop message ''term'')) (\<lambda>term.
             js_bind (js_read (query env ''_app.dict.check'' [term])) (\<lambda>r.
               js_return (event\<lparr>returnValue := Some r\<rparr>)))
           else js_return (event\<lparr>returnValue := Some (JStr ''not-ready'')\<rparr>))
       else if t = JStr ''suggest'' then
         js_bind (js_read (query env ''_app.dict'' [])) (\<lambda>d.
           if truthy d then
             js_bind (js_lift (get_prop message ''term'')) (\<lambda>term.
             js_bind (js_read (query env ''_app.dict.suggest'' [term])) (\<lambda>r.
               js_return (event\<lparr>returnValue := Some r\<rparr>)))
           else js_return (event\<lparr>returnValue := Some (JArr [])\<rparr>))
       else js_return event)"

text \<open>
  \<^verbatim>\<open>
  ipc.on('getCitation', (event, idList) => { event.returnValue = global.citeproc.getCitation(idList) })
  ipc.on('updateItems', (event, idList) => { event.returnValue = global.citeproc.updateItems(idList) })
  \<close>
\<close>

definition getCitation_listener :: "'a env \<Rightarrow> sync_event \<Rightarrow> jsval \<Rightarrow> ('a, sync_event) js" where
  "getCitation_listener env event idList =
     js_bind (citeproc_call env ''getCitation'' [idList]) (\<lambda>v.
       js_return (event\<lparr>returnValue := Some v\<rparr>))"

definition updateItems_listener :: "'a env \<Rightarrow> sync_event \<Rightarrow> jsval \<Rightarrow> ('a, sync_event) js" where
  "updateItems_listener env event idList =
     js_bind (citeproc_call env ''updateItems'' [idList]) (\<lambda>v.
       js_return (event\<lparr>returnValue := Some v\<rparr>))"

text \<open>
  \<^verbatim>\<open>
  if (arg.command === 'file-drag-start') {
    event.sender.startDrag({
      'file': this._app.findFile({ hash: parseInt(arg.content.hash) }).path,
      'icon': require('path').join(__dirname, '/assets/dragicon.png')
    })
    return // Don't dispatch further
  }
  \<close>
\<close>

definition file_drag_start :: "'a env \<Rightarrow> message_event \<Rightarrow> jsval \<Rightarrow> ('a, unit) js" where
  "file_drag_start env event arg =
     js_bind (js_lift (get_prop arg ''content'')) (\<lambda>content.
     js_bind (js_lift (get_prop content ''hash'')) (\<lambda>h.
     js_bind (js_read (query env ''parseInt'' [h])) (\<lambda>n.
     js_bind (js_read (findFile env (JObj [(''hash'', n)]))) (\<lambda>found.
     js_bind (deref found) (\<lambda>f.
     js_bind (js_read (query env ''__dirname'' [])) (\<lambda>dir.
     js_bind (js_read (query env ''path.join'' [dir, JStr ''/assets/dragicon.png''])) (\<lambda>icon.
       emit (SenderStartDrag (sender event)
               (JObj [(''file'', JStr (path f)), (''icon'', icon)])))))))))"

text \<open>
  \<^verbatim>\<open>
  if (arg.hasOwnProperty('cypher') && arg.cypher !== '') {
    arg.returnValue = this.runCall(arg.command, arg.content)
    event.sender.send('message', arg)
    return // Also, don't dispatch further
  }
  \<close>
  The method \<^verbatim>\<open>this.runCall\<close> is a parameter here, so that a statement can say whether the
  listener calls it.
\<close>

definition correlated_call ::
  "(jsval \<Rightarrow> jsval \<Rightarrow> ('a, jsval) js) \<Rightarrow> message_event \<Rightarrow> jsval \<Rightarrow> ('a, unit) js" where
  "correlated_call call event arg =
     js_bind (js_lift (get_prop arg ''command'')) (\<lambda>command.
     js_bind (js_lift (get_prop arg ''content'')) (\<lambda>content.
     js_bind (call command content) (\<lambda>rv.
     js_bind (js_lift (set_prop arg ''returnValue'' rv)) (\<lambda>arg'.
       emit (SenderSend (sender event) ''message'' arg')))))"

text \<open>
  \<^verbatim>\<open>
  if (arg.command === 'ql-get-file') {
    event.sender.send('file', this._app.findFile({ 'hash': arg.content }).withContent())
    return
  }
  \<close>
\<close>

definition ql_get_file :: "'a env \<Rightarrow> message_event \<Rightarrow> jsval \<Rightarrow> ('a, unit) js" where
  "ql_get_file env event arg =
     js_bind (js_lift (get_prop arg ''content'')) (\<lambda>content.
     js_bind (js_read (findFile env (JObj [(''hash'', content)]))) (\<lambda>found.
     js_bind (deref found) (\<lambda>f.
     js_bind (js_read (withContent env f)) (\<lambda>c.
       emit (SenderSend (sender event) ''file'' (JObj c))))))"

text \<open>
  The listener on the \<^verbatim>\<open>message\<close> channel, \<^verbatim>\<open>ipc.on('message', (event, arg) => ...)\<close>. Its
  four tests run in the order of the source, and the first that holds decides:
  \<^verbatim>\<open>
  if (!arg.hasOwnProperty('command')) {
    console.error(trans('system.no_command'), arg)
    return
  }
  if (arg.command === 'file-drag-start') { ... return }
  if (arg.hasOwnProperty('cypher') && arg.cypher !== '') { ... return }
  if (arg.command === 'ql-get-file') { ... return }
  this.dispatch(arg)
  \<close>
  The methods \<^verbatim>\<open>this.runCall\<close> and \<^verbatim>\<open>this.dispatch\<close> are parameters of
  \<open>message_listener_with\<close>; the listener of the class is \<open>message_listener\<close>.
\<close>

definition message_listener_with ::
  "(jsval \<Rightarrow> jsval \<Rightarrow> ('a, jsval) js) \<Rightarrow> (jsval \<Rightarrow> ('a, unit) js) \<Rightarrow>
   'a env \<Rightarrow> message_event \<Rightarrow> jsval \<Rightarrow> ('a, unit) js" where
  "message_listener_with call disp env event arg =
     js_bind (js_lift (hasOwnProperty arg ''command'')) (\<lambda>has.
       if \<not> has then
         js_bind (js_read (query env ''trans'' [JStr ''system.no_command''])) (\<lambda>m.
           emit (ConsoleError [m, arg]))
       else
         js_bind (js_lift (get_prop arg ''command'')) (\<lambda>command.
           if command = JStr ''file-drag-start'' then file_drag_start env event arg
           else
             js_bind (js_lift (hasOwnProperty arg ''cypher'')) (\<lambda>has_cypher.
             js_bind (js_lift (get_prop arg ''cypher'')) (\<lambda>cypher.
               if has_cypher \<and> cypher \<noteq> JStr [] then correlated_call call event arg
               else if command = JStr ''ql-get-file'' then ql_get_file env event arg
               else disp arg))))"

definition message_listener :: "'a env \<Rightarrow> message_event \<Rightarrow> jsval \<Rightarrow> ('a, unit) js" where
  "message_listener env = message_listener_with (runCall env) (dispatch env) env"

subsection \<open>A concrete backend for evaluating the code\<close>

text \<open>
  The backend state of the example is one boolean: whether the application has a window. The
  file index holds two files, with the hashes 7 and 42; a file with hash 42 is open, in a
  directory with hash 5. Neither the dictionary nor the citation engine is initialised
  (\<^verbatim>\<open>this._app.dict\<close> and \<^verbatim>\<open>global.citeproc\<close> are \<^verbatim>\<open>undefined\<close>). The registry is empty.
  The helper \<^verbatim>\<open>trans\<close> stands for a language table that returns its arguments; \<^verbatim>\<open>parseInt\<close>
  returns the number it is given and the value of a string of decimal digits (the examples
  call it on nothing else); \<^verbatim>\<open>__dirname\<close> is \<^verbatim>\<open>/app/source/main\<close> and \<^verbatim>\<open>path.join\<close>
  appends the absolute segment to it.
\<close>

fun decimal :: "int \<Rightarrow> string \<Rightarrow> int option" where
  "decimal acc [] = Some acc"
| "decimal acc (c # cs) =
     (case map_of [(CHR ''0'', 0), (CHR ''1'', 1), (CHR ''2'', 2), (CHR ''3'', 3), (CHR ''4'', 4),
                   (CHR ''5'', 5), (CHR ''6'', 6), (CHR ''7'', 7), (CHR ''8'', 8), (CHR ''9'', 9)] c of
        None \<Rightarrow> None
      | Some d \<Rightarrow> decimal (10 * acc + d) cs)"

definition demo_parseInt :: "jsval list \<Rightarrow> jsval" where
  "demo_parseInt args =
     (case args of
        [JNum k] \<Rightarrow> JNum k
      | [JStr s] \<Rightarrow> (if s = [] then JUndefined
                     else case decimal 0 s of Some k \<Rightarrow> JNum k | None \<Rightarrow> JUndefined)
      | _ \<Rightarrow> JUndefined)"

definition demo_query :: "string \<Rightarrow> jsval list \<Rightarrow> bool \<Rightarrow> jsval" where
  "demo_query n args has_window =
     (if n = ''_app.window.getWindow'' then (if has_window then JObj [(''id'', JNum 1)] else JNull)
      else if n = ''_app.getConfig.getCustomCSSPath'' then JStr ''/home/user/custom.css''
      else if n = ''_app.getPathDummies'' then JArr []
      else if n = ''_app.getTags.get'' then JArr [JStr ''todo'']
      else if n = ''trans'' then JArr args
      else if n = ''parseInt'' then demo_parseInt args
      else if n = ''__dirname'' then JStr ''/app/source/main''
      else if n = ''path.join'' then
        (case args of [JStr dir, JStr segment] \<Rightarrow> JStr (dir @ segment) | _ \<Rightarrow> JUndefined)
      else JUndefined)"

definition demo_findFile :: "jsval \<Rightarrow> bool \<Rightarrow> zettlr_file option" where
  "demo_findFile criteria has_window =
     (if criteria = JObj [(''hash'', JNum 7)] then Some \<lparr>hash = 7, path = ''/notes/seven.md''\<rparr>
      else if criteria = JObj [(''hash'', JNum 42)] then Some \<lparr>hash = 42, path = ''/notes/answer.md''\<rparr>
      else None)"

definition demo_env :: "bool env" where
  "demo_env =
     \<lparr>registry = (\<lambda>cmd. None),
      query = demo_query,
      action = (\<lambda>n args. js_return JUndefined),
      findFile = demo_findFile,
      findExact = (\<lambda>criteria has_window. None),
      getCurrentFile = (\<lambda>has_window. Some \<lparr>hash = 42, path = ''/notes/answer.md''\<rparr>),
      getCurrentDir = (\<lambda>has_window. Some \<lparr>dir_hash = 5\<rparr>),
      withContent = (\<lambda>f has_window. [(''hash'', JNum (hash f)), (''content'', JStr ''# Note'')]),
      search = (\<lambda>f terms has_window. JArr []),
      getMetadata = (\<lambda>f has_window. JObj [(''hash'', JNum (hash f))]),
      getConfig = (\<lambda>has_window. [(''darkTheme'', JBool False)])\<rparr>"

definition demo_world :: "bool \<Rightarrow> bool world" where
  "demo_world has_window = \<lparr>backend = has_window, trace = []\<rparr>"




text \<open>The push that \<^verbatim>\<open>send (command, content)\<close> delivers to the window \<open>win\<close>.\<close>

definition push :: "jsval \<Rightarrow> string \<Rightarrow> jsval \<Rightarrow> effect" where
  "push win command content =
     WebContentsSend win ''message'' (JObj [(''command'', JStr command), (''content'', content)])"

text \<open>
  What reaches the renderer of a list of pushes made in a world \<open>w\<close>: every one of them, in
  order, on the window that \<^verbatim>\<open>this._app.window.getWindow()\<close> returns, and none of them when
  it returns no window.
\<close>

definition delivered :: "'a env \<Rightarrow> 'a world \<Rightarrow> (string \<times> jsval) list \<Rightarrow> effect list" where
  "delivered env w ps =
     (if truthy (getWindow env (backend w))
      then map (\<lambda>(command, content). push (getWindow env (backend w)) command content) ps
      else [])"

section \<open>Properties\<close>

lemmas js_defs = js_return_def js_throw_def js_bind_def js_then_def js_lift_def js_read_def
  emit_def js_void_def deref_def

lemmas demo_defs = demo_env_def demo_world_def demo_query_def demo_findFile_def demo_parseInt_def

subsection \<open>The message listener classifies in the order of the source\<close>

lemma listener_classify:
  assumes "hasOwnProperty arg ''command'' = Inr True"
    and "get_prop arg ''command'' = Inr command"
    and "hasOwnProperty arg ''cypher'' = Inr b"
    and "get_prop arg ''cypher'' = Inr c"
  shows "message_listener_with call disp env event arg w =
           (if command = JStr ''file-drag-start'' then file_drag_start env event arg w
            else if b \<and> c \<noteq> JStr [] then correlated_call call event arg w
            else if command = JStr ''ql-get-file'' then ql_get_file env event arg w
            else disp arg w)"
  using assms by (simp add: message_listener_with_def js_bind_def js_lift_def)

lemma registry_miss:
  "registry env cmd = None \<Longrightarrow> runCommand env cmd cnt w = (Inl (UnknownCommand cmd), w)"
  by (simp add: runCommand_def js_throw_def)

subsection \<open>The registry and the built-in table\<close>




subsection \<open>File lookups that find nothing\<close>

text \<open>
  C2 at a hash that the file index does not hold (99): the listener on the \<^verbatim>\<open>message\<close>
  channel ends in an uncaught \<^verbatim>\<open>TypeError\<close> for \<^verbatim>\<open>ql-get-file\<close>, for
  \<^verbatim>\<open>file-drag-start\<close> and for \<^verbatim>\<open>file-search\<close>, and nothing has been sent or logged: no
  \<^verbatim>\<open>notify-error\<close> push reaches the window.
\<close>

theorem lookup_miss_throws:
  "message_listener demo_env \<lparr>sender = 3\<rparr>
     (JObj [(''command'', JStr ''ql-get-file''), (''content'', JNum 99)]) (demo_world True)
     = (Inl TypeError, demo_world True)
   \<and> message_listener demo_env \<lparr>sender = 3\<rparr>
     (JObj [(''command'', JStr ''file-drag-start''), (''content'', JObj [(''hash'', JNum 99)])])
     (demo_world True)
     = (Inl TypeError, demo_world True)
   \<and> message_listener demo_env \<lparr>sender = 3\<rparr>
     (JObj [(''command'', JStr ''file-search''),
            (''content'', JObj [(''hash'', JNum 99), (''terms'', JArr [])])])
     (demo_world True)
     = (Inl TypeError, demo_world True)"
  by (simp add: message_listener_def message_listener_with_def ql_get_file_def file_drag_start_def
      dispatch_def handleEvent_def runCommand_def handleEvent_switch_def file_search_def
      demo_defs js_defs)

text \<open>The three lookups of the router dereference whatever \<^verbatim>\<open>findFile\<close> returns: when it
  returns \<^verbatim>\<open>null\<close>, each of them throws before anything is sent.\<close>

lemma ql_get_file_miss:
  assumes "get_prop arg ''content'' = Inr h"
    and "findFile env (JObj [(''hash'', h)]) (backend w) = None"
  shows "ql_get_file env event arg w = (Inl TypeError, w)"
  using assms by (simp add: ql_get_file_def js_defs)

lemma file_drag_start_miss:
  assumes "get_prop arg ''content'' = Inr content" and "get_prop content ''hash'' = Inr h"
    and "findFile env (JObj [(''hash'', query env ''parseInt'' [h] (backend w))]) (backend w) = None"
  shows "file_drag_start env event arg w = (Inl TypeError, w)"
  using assms by (simp add: file_drag_start_def js_defs)

lemma file_search_miss:
  assumes "get_prop cnt ''hash'' = Inr h"
    and "findFile env (JObj [(''hash'', h)]) (backend w) = None"
  shows "file_search env cnt w = (Inl TypeError, w)"
  using assms by (simp add: file_search_def js_defs)

text \<open>The sibling case \<^verbatim>\<open>force-open\<close> tests the result of its lookup and does nothing
  when there is none.\<close>

lemma force_open_miss:
  "findExact env cnt (backend w) = None \<Longrightarrow> force_open env cnt w = (Inr (), w)"
  by (simp add: force_open_def js_defs)

subsection \<open>Correlated calls\<close>

text \<open>
  C3, as the code has it. The correlation token of the wire format is the attribute
  \<^verbatim>\<open>cypher\<close>. An envelope that the listener classifies as a correlated call (it owns a
  command, the command is not \<^verbatim>\<open>file-drag-start\<close>, which is classified first, and it owns a
  \<^verbatim>\<open>cypher\<close> other than the empty string) is answered when \<^verbatim>\<open>runCall\<close> returns: if
  \<^verbatim>\<open>runCall\<close> on the envelope's command and content returns \<open>rv\<close>, the listener sends the
  envelope, with \<^verbatim>\<open>returnValue\<close> set to \<open>rv\<close> and nothing else changed, to the sender of the
  event on the \<^verbatim>\<open>message\<close> channel. In particular the envelope
  \<^verbatim>\<open>{command: 'get-custom-css-path', cypher: 'x'}\<close> comes back with the same token and the
  custom CSS path of the configuration as \<^verbatim>\<open>returnValue\<close>.
\<close>

theorem correlated_call_reply:
  "(hasOwnProperty (JObj kvs) ''command'' = Inr True
    \<and> get_prop (JObj kvs) ''command'' = Inr command \<and> command \<noteq> JStr ''file-drag-start''
    \<and> hasOwnProperty (JObj kvs) ''cypher'' = Inr True
    \<and> get_prop (JObj kvs) ''cypher'' \<noteq> Inr (JStr [])
    \<and> get_prop (JObj kvs) ''content'' = Inr content
    \<and> runCall env command content w = (Inr rv, w')
    \<longrightarrow> message_listener env event (JObj kvs) w =
          (Inr (), w'\<lparr>trace := trace w' @
             [SenderSend (sender event) ''message''
                (JObj (AList.update ''returnValue'' rv kvs))]\<rparr>))
   \<and> message_listener env event
        (JObj [(''command'', JStr ''get-custom-css-path''), (''cypher'', JStr ''x'')]) w =
          (Inr (), w\<lparr>trace := trace w @
             [SenderSend (sender event) ''message''
                (JObj [(''command'', JStr ''get-custom-css-path''), (''cypher'', JStr ''x''),
                       (''returnValue'',
                        query env ''_app.getConfig.getCustomCSSPath'' [] (backend w))])]\<rparr>)"
proof (intro conjI impI)
  assume a: "hasOwnProperty (JObj kvs) ''command'' = Inr True
    \<and> get_prop (JObj kvs) ''command'' = Inr command \<and> command \<noteq> JStr ''file-drag-start''
    \<and> hasOwnProperty (JObj kvs) ''cypher'' = Inr True
    \<and> get_prop (JObj kvs) ''cypher'' \<noteq> Inr (JStr [])
    \<and> get_prop (JObj kvs) ''content'' = Inr content
    \<and> runCall env command content w = (Inr rv, w')"
  then have c: "correlated_call (runCall env) event (JObj kvs) w =
          (Inr (), w'\<lparr>trace := trace w' @
             [SenderSend (sender event) ''message''
                (JObj (AList.update ''returnValue'' rv kvs))]\<rparr>)"
    by (simp add: correlated_call_def js_defs)
  from a obtain cy where cy: "get_prop (JObj kvs) ''cypher'' = Inr cy" "cy \<noteq> JStr []"
    by (cases "get_prop (JObj kvs) ''cypher''") auto
  from a have 1: "hasOwnProperty (JObj kvs) ''command'' = Inr True"
    and 2: "get_prop (JObj kvs) ''command'' = Inr command"
    and 3: "command \<noteq> JStr ''file-drag-start''"
    and 4: "hasOwnProperty (JObj kvs) ''cypher'' = Inr True" by simp_all
  show "message_listener env event (JObj kvs) w =
          (Inr (), w'\<lparr>trace := trace w' @
             [SenderSend (sender event) ''message''
                (JObj (AList.update ''returnValue'' rv kvs))]\<rparr>)"
    unfolding message_listener_def
    by (simp add: listener_classify [OF 1 2 4 cy(1)] 3 cy(2) c)
next
  show "message_listener env event
        (JObj [(''command'', JStr ''get-custom-css-path''), (''cypher'', JStr ''x'')]) w =
          (Inr (), w\<lparr>trace := trace w @
             [SenderSend (sender event) ''message''
                (JObj [(''command'', JStr ''get-custom-css-path''), (''cypher'', JStr ''x''),
                       (''returnValue'',
                        query env ''_app.getConfig.getCustomCSSPath'' [] (backend w))])]\<rparr>)"
    by (simp add: message_listener_def message_listener_with_def correlated_call_def runCall_def
        js_defs)
qed

theorem correlated_call_reply_witness:
  "hasOwnProperty (JObj [(''command'', JStr ''make-standalone''), (''cypher'', JStr ''c1''),
                         (''content'', JNum 7)]) ''command'' = Inr True
   \<and> hasOwnProperty (JObj [(''command'', JStr ''make-standalone''), (''cypher'', JStr ''c1''),
                         (''content'', JNum 7)]) ''cypher'' = Inr True
   \<and> runCall demo_env (JStr ''make-standalone'') (JNum 7) (demo_world True)
       = (Inr (JBool True), demo_world True)
   \<and> message_listener demo_env \<lparr>sender = 3\<rparr>
       (JObj [(''command'', JStr ''make-standalone''), (''cypher'', JStr ''c1''),
              (''content'', JNum 7)]) (demo_world True)
       = (Inr (), \<lparr>backend = True, trace =
            [SenderSend 3 ''message''
               (JObj [(''command'', JStr ''make-standalone''), (''cypher'', JStr ''c1''),
                      (''content'', JNum 7), (''returnValue'', JBool True)])]\<rparr>)"
proof -
  have r: "runCall demo_env (JStr ''make-standalone'') (JNum 7) (demo_world True)
             = (Inr (JBool True), demo_world True)"
    by (simp add: runCall_def demo_defs js_defs)
  show ?thesis
    using correlated_call_reply
            [of "[(''command'', JStr ''make-standalone''), (''cypher'', JStr ''c1''),
                  (''content'', JNum 7)]" "JStr ''make-standalone''" "JNum 7" demo_env
                "demo_world True" "JBool True" "demo_world True" "\<lparr>sender = 3\<rparr>"]
    by (simp add: r) (simp add: demo_world_def)
qed

text \<open>
  C3, as stated, fails twice. The envelope of the round trip as the claim writes it,
  \<^verbatim>\<open>{command: 'get-custom-css-path', correlationId: 'x'}\<close>, owns no \<^verbatim>\<open>cypher\<close>: the
  listener hands it to \<^verbatim>\<open>dispatch\<close>, whose switch does not know the command, so the
  unknown-command notice is logged and no reply is sent. And the envelope
  \<^verbatim>\<open>{command: 'request-files', cypher: 'x'}\<close> owns a non-empty token, but \<^verbatim>\<open>runCall\<close> reads
  \<^verbatim>\<open>arg.filters\<close> of its absent content and throws, so again no reply is sent.
\<close>

theorem correlated_envelope_without_reply:
  "message_listener demo_env \<lparr>sender = 3\<rparr>
     (JObj [(''command'', JStr ''get-custom-css-path''), (''correlationId'', JStr ''x'')])
     (demo_world True)
     = (Inr (), \<lparr>backend = True, trace =
          [ConsoleLog [query demo_env ''trans''
             [JStr ''system.unknown_command'', JStr ''get-custom-css-path''] True]]\<rparr>)
   \<and> hasOwnProperty (JObj [(''command'', JStr ''request-files''), (''cypher'', JStr ''x'')])
       ''cypher'' = Inr True
   \<and> get_prop (JObj [(''command'', JStr ''request-files''), (''cypher'', JStr ''x'')])
       ''cypher'' = Inr (JStr ''x'')
   \<and> message_listener demo_env \<lparr>sender = 3\<rparr>
     (JObj [(''command'', JStr ''request-files''), (''cypher'', JStr ''x'')])
     (demo_world True)
     = (Inl TypeError, demo_world True)"
  by (simp add: message_listener_def message_listener_with_def correlated_call_def runCall_def
      dispatch_def handleEvent_def runCommand_def handleEvent_switch_def log_unknown_command_def
      demo_defs js_defs)

subsection \<open>Messages without a command\<close>

text \<open>
  When the test \<^verbatim>\<open>arg.hasOwnProperty('command')\<close> answers false, the listener writes one
  \<^verbatim>\<open>console.error\<close> with the translated notice and the payload itself, and nothing else:
  the world is otherwise unchanged, so nothing is sent on any channel; and the outcome is the
  same whatever \<^verbatim>\<open>runCall\<close> and \<^verbatim>\<open>dispatch\<close> would do, so neither of them is invoked.
\<close>

lemma missing_command_is_logged_and_dropped:
  assumes "hasOwnProperty arg ''command'' = Inr False"
  shows "message_listener env event arg w =
           (Inr (), w\<lparr>trace := trace w @
              [ConsoleError [query env ''trans'' [JStr ''system.no_command''] (backend w), arg]]\<rparr>)
         \<and> message_listener_with call disp env event arg w = message_listener env event arg w"
  using assms by (simp add: message_listener_def message_listener_with_def js_defs)

text \<open>
  C4 at payloads that lack the \<^verbatim>\<open>command\<close> attribute and on which the test itself throws:
  the object \<^verbatim>\<open>{hasOwnProperty: 1, content: 'hello'}\<close>, whose own property shadows the
  inherited method, and the payloads \<^verbatim>\<open>null\<close> and \<^verbatim>\<open>undefined\<close>. The listener ends in an
  uncaught \<^verbatim>\<open>TypeError\<close> and has written no \<^verbatim>\<open>console.error\<close>.
\<close>

theorem malformed_payload_throws:
  "get_prop (JObj [(''hasOwnProperty'', JNum 1), (''content'', JStr ''hello'')]) ''command''
     = Inr JUndefined
   \<and> message_listener demo_env \<lparr>sender = 3\<rparr>
       (JObj [(''hasOwnProperty'', JNum 1), (''content'', JStr ''hello'')]) (demo_world True)
     = (Inl TypeError, demo_world True)
   \<and> message_listener demo_env \<lparr>sender = 3\<rparr> JNull (demo_world True)
     = (Inl TypeError, demo_world True)
   \<and> message_listener demo_env \<lparr>sender = 3\<rparr> JUndefined (demo_world True)
     = (Inl TypeError, demo_world True)"
  by (simp add: message_listener_def message_listener_with_def demo_defs js_defs)

subsection \<open>Commands that nobody knows\<close>

text \<open>
  C5. A command that the registry does not know and that is no case label of
  \<^verbatim>\<open>handleEvent\<close>'s switch makes \<^verbatim>\<open>handleEvent\<close> write one \<^verbatim>\<open>console.log\<close> and change
  nothing else; a command that is no case label of \<^verbatim>\<open>runCall\<close>'s switch makes \<^verbatim>\<open>runCall\<close>
  write one \<^verbatim>\<open>console.log\<close>, change nothing else, and return \<^verbatim>\<open>null\<close>.
\<close>

theorem unknown_command_one_log:
  "(registry env cmd = None \<and> cmd \<notin> JStr ` set handleEvent_commands \<longrightarrow>
      handleEvent env cmd cnt w =
        (Inr JUndefined, w\<lparr>trace := trace w @
           [ConsoleLog [query env ''trans'' [JStr ''system.unknown_command'', cmd] (backend w)]]\<rparr>))
   \<and> (cmd \<notin> JStr ` set runCall_commands \<longrightarrow>
      runCall env cmd arg w =
        (Inr JNull, w\<lparr>trace := trace w @
           [ConsoleLog [query env ''trans'' [JStr ''system.unknown_command'', cmd] (backend w)]]\<rparr>))"
proof (intro conjI impI)
  assume a: "registry env cmd = None \<and> cmd \<notin> JStr ` set handleEvent_commands"
  then have "handleEvent_switch env cmd cnt w =
        (Inr JUndefined, w\<lparr>trace := trace w @
           [ConsoleLog [query env ''trans'' [JStr ''system.unknown_command'', cmd] (backend w)]]\<rparr>)"
    by (simp add: handleEvent_switch_def handleEvent_commands_def log_unknown_command_def
        js_defs image_iff)
  with a show "handleEvent env cmd cnt w =
        (Inr JUndefined, w\<lparr>trace := trace w @
           [ConsoleLog [query env ''trans'' [JStr ''system.unknown_command'', cmd] (backend w)]]\<rparr>)"
    by (simp add: handleEvent_def registry_miss)
next
  assume "cmd \<notin> JStr ` set runCall_commands"
  then show "runCall env cmd arg w =
        (Inr JNull, w\<lparr>trace := trace w @
           [ConsoleLog [query env ''trans'' [JStr ''system.unknown_command'', cmd] (backend w)]]\<rparr>)"
    by (simp add: runCall_def runCall_commands_def log_unknown_command_def js_defs image_iff)
qed

theorem unknown_command_one_log_witness:
  "registry demo_env (JStr ''frobnicate'') = None
   \<and> JStr ''frobnicate'' \<notin> JStr ` set handleEvent_commands
   \<and> JStr ''frobnicate'' \<notin> JStr ` set runCall_commands
   \<and> handleEvent demo_env (JStr ''frobnicate'') JUndefined (demo_world True) =
     (Inr JUndefined, \<lparr>backend = True, trace =
        [ConsoleLog [JArr [JStr ''system.unknown_command'', JStr ''frobnicate'']]]\<rparr>)
   \<and> runCall demo_env (JStr ''frobnicate'') JUndefined (demo_world True) =
     (Inr JNull, \<lparr>backend = True, trace =
        [ConsoleLog [JArr [JStr ''system.unknown_command'', JStr ''frobnicate'']]]\<rparr>)"
  using unknown_command_one_log
          [of demo_env "JStr ''frobnicate''" JUndefined "demo_world True" JUndefined]
  by (simp add: demo_defs handleEvent_commands_def runCall_commands_def)

subsection \<open>Optional subsystems\<close>

text \<open>
  C6 at a state in which \<^verbatim>\<open>global.citeproc\<close> is \<^verbatim>\<open>undefined\<close>: the listeners of the
  channels \<^verbatim>\<open>getCitation\<close> and \<^verbatim>\<open>updateItems\<close> end in an uncaught \<^verbatim>\<open>TypeError\<close> and set
  no \<^verbatim>\<open>returnValue\<close>.
\<close>

theorem citation_query_without_engine_throws:
  "query demo_env ''global.citeproc'' [] True = JUndefined
   \<and> getCitation_listener demo_env \<lparr>returnValue = None\<rparr> (JArr [JStr ''doe2019''])
       (demo_world True)
     = (Inl TypeError, demo_world True)
   \<and> updateItems_listener demo_env \<lparr>returnValue = None\<rparr> (JArr [JStr ''doe2019''])
       (demo_world True)
     = (Inl TypeError, demo_world True)"
  by (simp add: getCitation_listener_def updateItems_listener_def citeproc_call_def demo_defs
      js_defs)

text \<open>
  The dictionary and the case \<^verbatim>\<open>citeproc-get-ids\<close> do test for the subsystem: without a
  dictionary \<^verbatim>\<open>check\<close> answers \<^verbatim>\<open>'not-ready'\<close> and \<^verbatim>\<open>suggest\<close> answers \<^verbatim>\<open>[]\<close>, and without
  a citation engine \<^verbatim>\<open>citeproc-get-ids\<close> pushes \<^verbatim>\<open>[]\<close>.
\<close>

lemma typo_check_not_ready:
  assumes "get_prop message ''type'' = Inr (JStr ''check'')"
    and "\<not> truthy (query env ''_app.dict'' [] (backend w))"
  shows "typo_listener env event message w =
           (Inr (event\<lparr>returnValue := Some (JStr ''not-ready'')\<rparr>), w)"
  using assms by (simp add: typo_listener_def js_defs)

lemma typo_suggest_empty:
  assumes "get_prop message ''type'' = Inr (JStr ''suggest'')"
    and "\<not> truthy (query env ''_app.dict'' [] (backend w))"
  shows "typo_listener env event message w = (Inr (event\<lparr>returnValue := Some (JArr [])\<rparr>), w)"
  using assms by (simp add: typo_listener_def js_defs)

lemma citeproc_get_ids_without_engine:
  assumes "\<not> truthy (query env ''global.citeproc'' [] (backend w))"
  shows "citeproc_get_ids env w = (Inr (), w\<lparr>trace := trace w @ delivered env w
           [(''citeproc-ids'', JArr [])]\<rparr>)"
  using assms
  by (simp add: citeproc_get_ids_def send_def delivered_def push_def default_content_def js_defs)

subsection \<open>get-paths\<close>

lemma get_paths_delivered:
  "get_paths env w = (Inr (), w\<lparr>trace := trace w @ delivered env w
      ([(''paths-update'', default_content (query env ''_app.getPathDummies'' [] (backend w))),
        (''file-set-current'',
           case getCurrentFile env (backend w) of Some f \<Rightarrow> JNum (hash f) | None \<Rightarrow> JNull),
        (''dir-set-current'',
           case getCurrentDir env (backend w) of Some d \<Rightarrow> JNum (dir_hash d) | None \<Rightarrow> JNull)]
       @ (case getCurrentFile env (backend w) of
            Some f \<Rightarrow> [(''file-open'', JObj (withContent env f (backend w)))]
          | None \<Rightarrow> []))\<rparr>)"
  by (simp add: get_paths_def send_def delivered_def push_def default_content_def js_defs
      split: option.splits)

text \<open>
  C7. When the registry leaves \<^verbatim>\<open>get-paths\<close> to the built-in switch, \<^verbatim>\<open>handleEvent\<close>
  makes, in this order, the pushes \<^verbatim>\<open>paths-update\<close>, \<^verbatim>\<open>file-set-current\<close>,
  \<^verbatim>\<open>dir-set-current\<close> and, with a file open, \<^verbatim>\<open>file-open\<close>, and nothing else. With a file
  \<open>f\<close> open, \<^verbatim>\<open>file-set-current\<close> carries the hash of \<open>f\<close> and \<^verbatim>\<open>file-open\<close> carries \<open>f\<close> with
  its content; with no file open, \<^verbatim>\<open>file-set-current\<close> carries \<^verbatim>\<open>null\<close> and there is no
  fourth push. \<^verbatim>\<open>dir-set-current\<close> carries the hash of the current directory, or \<^verbatim>\<open>null\<close>
  when there is none. (\<open>delivered\<close>: the pushes reach the window the application has.)
\<close>

theorem get_paths_push_order:
  assumes "registry env (JStr ''get-paths'') = None"
  shows "(getCurrentFile env (backend w) = Some f \<longrightarrow>
           handleEvent env (JStr ''get-paths'') cnt w =
             (Inr JUndefined, w\<lparr>trace := trace w @ delivered env w
               [(''paths-update'',
                   default_content (query env ''_app.getPathDummies'' [] (backend w))),
                (''file-set-current'', JNum (hash f)),
                (''dir-set-current'',
                   case getCurrentDir env (backend w) of
                     Some d \<Rightarrow> JNum (dir_hash d) | None \<Rightarrow> JNull),
                (''file-open'', JObj (withContent env f (backend w)))]\<rparr>))
       \<and> (getCurrentFile env (backend w) = None \<longrightarrow>
           handleEvent env (JStr ''get-paths'') cnt w =
             (Inr JUndefined, w\<lparr>trace := trace w @ delivered env w
               [(''paths-update'',
                   default_content (query env ''_app.getPathDummies'' [] (backend w))),
                (''file-set-current'', JNull),
                (''dir-set-current'',
                   case getCurrentDir env (backend w) of
                     Some d \<Rightarrow> JNum (dir_hash d) | None \<Rightarrow> JNull)]\<rparr>))"
proof -
  have s: "handleEvent_switch env (JStr ''get-paths'') cnt w =
             (case get_paths env w of
                (Inl e, w') \<Rightarrow> (Inl e, w')
              | (Inr u, w') \<Rightarrow> (Inr JUndefined, w'))"
    by (simp add: handleEvent_switch_def js_defs)
  show ?thesis
    by (simp add: handleEvent_def registry_miss [OF assms] s get_paths_delivered)
qed

theorem get_paths_push_order_witness:
  "registry demo_env (JStr ''get-paths'') = None
   \<and> getCurrentFile demo_env True = Some \<lparr>hash = 42, path = ''/notes/answer.md''\<rparr>
   \<and> handleEvent demo_env (JStr ''get-paths'') JUndefined (demo_world True) =
       (Inr JUndefined, \<lparr>backend = True, trace =
          [push (JObj [(''id'', JNum 1)]) ''paths-update'' (JArr []),
           push (JObj [(''id'', JNum 1)]) ''file-set-current'' (JNum 42),
           push (JObj [(''id'', JNum 1)]) ''dir-set-current'' (JNum 5),
           push (JObj [(''id'', JNum 1)]) ''file-open''
             (JObj [(''hash'', JNum 42), (''content'', JStr ''# Note'')])]\<rparr>)
   \<and> registry (demo_env\<lparr>getCurrentFile := (\<lambda>b. None)\<rparr>) (JStr ''get-paths'') = None
   \<and> getCurrentFile (demo_env\<lparr>getCurrentFile := (\<lambda>b. None)\<rparr>) True = None
   \<and> handleEvent (demo_env\<lparr>getCurrentFile := (\<lambda>b. None)\<rparr>) (JStr ''get-paths'') JUndefined
       (demo_world True) =
       (Inr JUndefined, \<lparr>backend = True, trace =
          [push (JObj [(''id'', JNum 1)]) ''paths-update'' (JArr []),
           push (JObj [(''id'', JNum 1)]) ''file-set-current'' JNull,
           push (JObj [(''id'', JNum 1)]) ''dir-set-current'' (JNum 5)]\<rparr>)"
  using get_paths_push_order
          [of demo_env "demo_world True" "\<lparr>hash = 42, path = ''/notes/answer.md''\<rparr>" JUndefined]
        get_paths_push_order
          [of "demo_env\<lparr>getCurrentFile := (\<lambda>b. None)\<rparr>" "demo_world True"
              "\<lparr>hash = 42, path = ''/notes/answer.md''\<rparr>" JUndefined]
  by (simp add: demo_defs delivered_def getWindow_def default_content_def)

subsection \<open>Quicklook requests\<close>

text \<open>
  C8. A \<^verbatim>\<open>ql-get-file\<close> message without a correlation token (no \<^verbatim>\<open>cypher\<close>, or the empty
  one) whose content is the hash of a file \<open>f\<close> in the index makes the listener send \<open>f\<close>
  with its content on the \<^verbatim>\<open>file\<close> channel to the sender of the event, and nothing else:
  no push goes to the window on the \<^verbatim>\<open>message\<close> channel, and the outcome is the same
  whatever \<^verbatim>\<open>dispatch\<close> and \<^verbatim>\<open>runCall\<close> would do.
\<close>

theorem ql_get_file_replies_on_file_channel:
  assumes "hasOwnProperty arg ''command'' = Inr True"
    and "get_prop arg ''command'' = Inr (JStr ''ql-get-file'')"
    and "hasOwnProperty arg ''cypher'' = Inr False \<or> get_prop arg ''cypher'' = Inr (JStr [])"
    and "get_prop arg ''content'' = Inr h"
    and "findFile env (JObj [(''hash'', h)]) (backend w) = Some f"
  shows "message_listener env event arg w =
           (Inr (), w\<lparr>trace := trace w @
              [SenderSend (sender event) ''file'' (JObj (withContent env f (backend w)))]\<rparr>)
         \<and> message_listener_with call disp env event arg w = message_listener env event arg w"
proof -
  have q: "ql_get_file env event arg w = (Inr (), w\<lparr>trace := trace w @
              [SenderSend (sender event) ''file'' (JObj (withContent env f (backend w)))]\<rparr>)"
    using assms(4,5) by (simp add: ql_get_file_def js_defs)
  obtain b where b: "hasOwnProperty arg ''cypher'' = Inr b"
    using assms(1) by (cases arg) (auto split: if_splits)
  obtain c where c: "get_prop arg ''cypher'' = Inr c"
    using assms(2) by (cases arg) auto
  have n: "\<not> (b \<and> c \<noteq> JStr [])" using assms(3) b c by auto
  have "message_listener_with call' disp' env event arg w = ql_get_file env event arg w"
    for call' disp'
    using n by (auto simp add: listener_classify [OF assms(1,2) b c])
  then show ?thesis
    by (simp add: message_listener_def q)
qed

theorem ql_get_file_replies_on_file_channel_witness:
  "hasOwnProperty (JObj [(''command'', JStr ''ql-get-file''), (''content'', JNum 7)]) ''command''
     = Inr True
   \<and> hasOwnProperty (JObj [(''command'', JStr ''ql-get-file''), (''content'', JNum 7)]) ''cypher''
     = Inr False
   \<and> findFile demo_env (JObj [(''hash'', JNum 7)]) True
     = Some \<lparr>hash = 7, path = ''/notes/seven.md''\<rparr>
   \<and> message_listener demo_env \<lparr>sender = 3\<rparr>
       (JObj [(''command'', JStr ''ql-get-file''), (''content'', JNum 7)]) (demo_world True)
     = (Inr (), \<lparr>backend = True, trace =
          [SenderSend 3 ''file'' (JObj [(''hash'', JNum 7), (''content'', JStr ''# Note'')])]\<rparr>)"
  using ql_get_file_replies_on_file_channel
          [of "JObj [(''command'', JStr ''ql-get-file''), (''content'', JNum 7)]" "JNum 7"
              demo_env "demo_world True" "\<lparr>hash = 7, path = ''/notes/seven.md''\<rparr>"
              "\<lparr>sender = 3\<rparr>"]
  by (simp add: demo_defs)

subsection \<open>send without a window\<close>

text \<open>
  C9. When \<^verbatim>\<open>this._app.window.getWindow()\<close> returns no window, \<^verbatim>\<open>send\<close> returns
  \<^verbatim>\<open>this\<close> without an exception and leaves the world as it was.
\<close>

theorem send_without_window:
  "\<not> truthy (getWindow env (backend w)) \<Longrightarrow> send env command content w = (Inr This, w)"
  by (simp add: send_def)

theorem send_without_window_witness:
  "\<not> truthy (getWindow demo_env (backend (demo_world False)))
   \<and> send demo_env (JStr ''notify'') (JStr ''saved'') (demo_world False)
       = (Inr This, demo_world False)"
proof -
  have h: "\<not> truthy (getWindow demo_env (backend (demo_world False)))"
    by (simp add: getWindow_def demo_defs)
  show ?thesis
    using h send_without_window [OF h, of "JStr ''notify''" "JStr ''saved''"] by simp
qed

subsection \<open>Other types on the typo channel\<close>

text \<open>
  C10. A message on the \<^verbatim>\<open>typo\<close> channel whose \<^verbatim>\<open>type\<close> is neither \<^verbatim>\<open>'check'\<close> nor
  \<^verbatim>\<open>'suggest'\<close> leaves the event as it came, so its \<^verbatim>\<open>returnValue\<close> stays absent, and
  leaves the world as it was.
\<close>

theorem typo_other_type_sets_nothing:
  assumes "get_prop message ''type'' = Inr t"
    and "t \<noteq> JStr ''check''" and "t \<noteq> JStr ''suggest''"
  shows "typo_listener env event message w = (Inr event, w)"
  using assms by (simp add: typo_listener_def js_defs)

theorem typo_other_type_sets_nothing_witness:
  "get_prop (JObj [(''type'', JStr ''add''), (''term'', JStr ''Zettlr'')]) ''type''
     = Inr (JStr ''add'')
   \<and> JStr ''add'' \<noteq> JStr ''check'' \<and> JStr ''add'' \<noteq> JStr ''suggest''
   \<and> typo_listener demo_env \<lparr>returnValue = None\<rparr>
       (JObj [(''type'', JStr ''add''), (''term'', JStr ''Zettlr'')]) (demo_world True)
     = (Inr \<lparr>returnValue = None\<rparr>, demo_world True)"
  using typo_other_type_sets_nothing
          [of "JObj [(''type'', JStr ''add''), (''term'', JStr ''Zettlr'')]" "JStr ''add''"
              demo_env "\<lparr>returnValue = None\<rparr>" "demo_world True"]
  by simp

end
